theory Spec2Isabelle
  imports Complex_Main
begin

section \<open>Strings and characters\<close>

text \<open>
  Python strings are sequences of code points.  The model uses \<^typ>\<open>string\<close>, whose
  characters are the code points below 256, so it is exact for Latin-1 text.  On
  that range the regular-expression class \<open>\d\<close> is the ASCII digits, and \<open>\s\<close> (which is
  also what \<open>str.strip()\<close> removes) is the set below.
\<close>

definition is_digit :: "char \<Rightarrow> bool" where
  "is_digit c = (48 \<le> (of_char c :: nat) \<and> (of_char c :: nat) \<le> 57)"

definition is_space :: "char \<Rightarrow> bool" where
  "is_space c = ((of_char c :: nat) \<in> {9, 10, 11, 12, 13, 28, 29, 30, 31, 32, 133, 160})"

definition is_control :: "char \<Rightarrow> bool" where
  "is_control c = ((of_char c :: nat) < 32)"

text \<open>\<open>text.strip()\<close>\<close>

definition strip :: "string \<Rightarrow> string" where
  "strip s = rev (dropWhile is_space (rev (dropWhile is_space s)))"

text \<open>\<open>text.count(c)\<close> for a one-character pattern.\<close>

definition count :: "string \<Rightarrow> char \<Rightarrow> nat" where
  "count s c = length (filter (\<lambda>x. x = c) s)"

fun starts_with :: "string \<Rightarrow> string \<Rightarrow> bool" where
  "starts_with [] s = True"
| "starts_with (p # ps) [] = False"
| "starts_with (p # ps) (c # cs) = (p = c \<and> starts_with ps cs)"

text \<open>
  The leftmost occurrence of a literal pattern: the text before it and the text
  after it.
\<close>

fun find_sub :: "string \<Rightarrow> string \<Rightarrow> (string \<times> string) option" where
  "find_sub pat [] = (if pat = [] then Some ([], []) else None)"
| "find_sub pat (c # cs) =
     (if starts_with pat (c # cs) then Some ([], drop (length pat) (c # cs))
      else (case find_sub pat cs of
              None \<Rightarrow> None
            | Some (before, after) \<Rightarrow> Some (c # before, after)))"

section \<open>The response sanitizer: \<open>fix_gemini_json\<close> (pipeline.py)\<close>

text \<open>
  \<open>re.search(r"```json(.*?)```", text, re.DOTALL)\<close>: the search starts at the leftmost
  \<open>```json\<close>; the lazy group then ends at the first \<open>```\<close> after it.  When no \<open>```\<close>
  follows the leftmost \<open>```json\<close>, none follows a later one either, so there is no
  match and the text is kept.  On a match the text becomes \<open>group(1).strip()\<close>.
\<close>

definition extract_fenced :: "string \<Rightarrow> string" where
  "extract_fenced text =
     (case find_sub ''```json'' text of
        None \<Rightarrow> text
      | Some (before, rest) \<Rightarrow>
          (case find_sub ''```'' rest of
             None \<Rightarrow> text
           | Some (inner, after) \<Rightarrow> strip inner))"

text \<open>
  One match of \<open>\((\d+),\s*(\d+)\)\<close> at the head of the text: the two digit groups and
  the text after the match.  The greedy groups cannot give characters back: what
  follows a run of digits must be a comma or a parenthesis, what follows the
  white space must be a digit.
\<close>

definition match_pair :: "string \<Rightarrow> (string \<times> string \<times> string) option" where
  "match_pair s =
     (case s of
        [] \<Rightarrow> None
      | c # r0 \<Rightarrow>
          if c \<noteq> CHR ''('' then None
          else let d1 = takeWhile is_digit r0; r1 = dropWhile is_digit r0 in
            if d1 = [] then None
            else (case r1 of
                    [] \<Rightarrow> None
                  | k # r2 \<Rightarrow>
                      if k \<noteq> CHR '','' then None
                      else let r3 = dropWhile is_space r2;
                               d2 = takeWhile is_digit r3;
                               r4 = dropWhile is_digit r3 in
                        if d2 = [] then None
                        else (case r4 of
                                [] \<Rightarrow> None
                              | p # r5 \<Rightarrow>
                                  if p = CHR '')'' then Some (d1, d2, r5) else None)))"

lemma dropWhile_Cons_shorter:
  "dropWhile P xs = y # ys \<Longrightarrow> length ys < length xs"
  using length_dropWhile_le [of P xs] by simp

lemma match_pair_shorter:
  assumes "match_pair s = Some (d1, d2, rest)"
  shows "length rest < length s"
proof (cases s)
  case Nil
  with assms show ?thesis by (simp add: match_pair_def)
next
  case (Cons c r0)
  with assms obtain k r2 where r1: "dropWhile is_digit r0 = k # r2"
    and m2: "(let r3 = dropWhile is_space r2; d2' = takeWhile is_digit r3;
                  r4 = dropWhile is_digit r3 in
              if d2' = [] then None
              else (case r4 of [] \<Rightarrow> None
                    | p # r5 \<Rightarrow> if p = CHR '')'' then Some (d1, d2', r5) else None))
             = Some (d1, d2, rest)"
    by (auto simp: match_pair_def Let_def split: if_splits list.splits)
  from m2 obtain p where r4: "dropWhile is_digit (dropWhile is_space r2) = p # rest"
    by (auto simp: Let_def split: if_splits list.splits)
  have "length rest < length (dropWhile is_space r2)"
    using r4 by (rule dropWhile_Cons_shorter)
  also have "\<dots> \<le> length r2" by (rule length_dropWhile_le)
  also have "\<dots> < length r0" using r1 by (rule dropWhile_Cons_shorter)
  finally show ?thesis by (simp add: Cons)
qed

text \<open>
  \<open>re.sub(r"\((\d+),\s*(\d+)\)", r"[\1, \2]", text)\<close>: scan from the left; a match is
  replaced and the scan goes on after it, any other character is copied.
\<close>

function tuples_to_lists :: "string \<Rightarrow> string" where
  "tuples_to_lists [] = []"
| "tuples_to_lists (c # cs) =
     (case match_pair (c # cs) of
        Some (d1, d2, rest) \<Rightarrow> ''['' @ d1 @ '', '' @ d2 @ '']'' @ tuples_to_lists rest
      | None \<Rightarrow> c # tuples_to_lists cs)"
  by pat_completeness auto
termination
  by (relation "measure length") (auto dest: match_pair_shorter)

text \<open>
  One match of \<open>,(\s*[\]}])\<close> at the head of the text: group 1 and the text after
  the match.
\<close>

definition match_comma :: "string \<Rightarrow> (string \<times> string) option" where
  "match_comma s =
     (case s of
        [] \<Rightarrow> None
      | c # r0 \<Rightarrow>
          if c \<noteq> CHR '','' then None
          else (case dropWhile is_space r0 of
                  [] \<Rightarrow> None
                | k # rest \<Rightarrow>
                    if k = CHR '']'' \<or> k = CHR ''}''
                    then Some (takeWhile is_space r0 @ [k], rest) else None))"

lemma match_comma_shorter:
  assumes "match_comma s = Some (g, rest)"
  shows "length rest < length s"
proof (cases s)
  case Nil
  with assms show ?thesis by (simp add: match_comma_def)
next
  case (Cons c r0)
  with assms obtain k where r: "dropWhile is_space r0 = k # rest"
    by (auto simp: match_comma_def split: if_splits list.splits)
  then have "length rest < length r0" by (rule dropWhile_Cons_shorter)
  then show ?thesis by (simp add: Cons)
qed

text \<open>\<open>re.sub(r",(\s*[\]}])", r"\1", text)\<close>\<close>

function remove_trailing_commas :: "string \<Rightarrow> string" where
  "remove_trailing_commas [] = []"
| "remove_trailing_commas (c # cs) =
     (case match_comma (c # cs) of
        Some (g, rest) \<Rightarrow> g @ remove_trailing_commas rest
      | None \<Rightarrow> c # remove_trailing_commas cs)"
  by pat_completeness auto
termination
  by (relation "measure length") (auto dest: match_comma_shorter)

text \<open>\<open>re.sub(r"[\x00-\x1f]", "", text)\<close>\<close>

definition strip_control :: "string \<Rightarrow> string" where
  "strip_control text = filter (\<lambda>c. \<not> is_control c) text"

text \<open>
  The two balancing steps.  Closers are appended only when the openers are more;
  surplus closers stay.
\<close>

definition balance_braces :: "string \<Rightarrow> string" where
  "balance_braces text =
     (let open_braces = count text CHR ''{''; close_braces = count text CHR ''}'' in
      if open_braces > close_braces
      then text @ replicate (open_braces - close_braces) CHR ''}'' else text)"

definition balance_brackets :: "string \<Rightarrow> string" where
  "balance_brackets text =
     (let open_brackets = count text CHR ''[''; close_brackets = count text CHR '']'' in
      if open_brackets > close_brackets
      then text @ replicate (open_brackets - close_brackets) CHR '']'' else text)"

text \<open>The first three steps, which rewrite inside the text.\<close>

definition rewrite_steps :: "string \<Rightarrow> string" where
  "rewrite_steps text = remove_trailing_commas (tuples_to_lists (extract_fenced text))"

definition fix_gemini_json :: "string \<Rightarrow> string" where
  "fix_gemini_json text =
     balance_brackets (balance_braces (strip_control (rewrite_steps text)))"

section \<open>Parsed JSON and the Python operations used on it\<close>

text \<open>
  What \<open>json.loads\<close> returns.  A mapping keeps its keys in order and has each key
  once.  A JSON number without fraction or exponent is a Python \<open>int\<close>, any other a
  \<open>float\<close>; the model takes floats as exact rationals, so it leaves rounding, \<open>NaN\<close>
  and the infinities out.
\<close>

datatype json =
    JNull
  | JBool bool
  | JInt int
  | JFloat rat
  | JStr string
  | JList "json list"
  | JObj "(string \<times> json) list"

datatype error =
    KeyError
  | TypeError
  | AttributeError
  | ZeroDivisionError
  | JSONDecodeError
  | RuntimeError

fun and_then :: "error + 'a \<Rightarrow> ('a \<Rightarrow> error + 'b) \<Rightarrow> error + 'b" where
  "and_then (Inl e) f = Inl e"
| "and_then (Inr x) f = f x"

text \<open>\<open>d.get(k, default)\<close> on a dict.\<close>

definition dict_get :: "(string \<times> json) list \<Rightarrow> string \<Rightarrow> json \<Rightarrow> json" where
  "dict_get d k dflt = (case map_of d k of None \<Rightarrow> dflt | Some v \<Rightarrow> v)"

text \<open>\<open>d[k] = v\<close> on a dict: a present key keeps its place, a new one goes last.\<close>

fun dict_set :: "string \<Rightarrow> json \<Rightarrow> (string \<times> json) list \<Rightarrow> (string \<times> json) list" where
  "dict_set k v [] = [(k, v)]"
| "dict_set k v ((k', v') # d) = (if k' = k then (k, v) # d else (k', v') # dict_set k v d)"

text \<open>
  \<open>x[k]\<close> with a string key: only a dict can be indexed by a string, a list and a
  string want integers and the other values are not subscriptable.
\<close>

definition py_getitem :: "json \<Rightarrow> string \<Rightarrow> error + json" where
  "py_getitem x k =
     (case x of
        JObj d \<Rightarrow> (case map_of d k of None \<Rightarrow> Inl KeyError | Some v \<Rightarrow> Inr v)
      | _ \<Rightarrow> Inl TypeError)"

text \<open>
  \<open>x.get(k, default)\<close>: of the JSON values only a dict has the method \<open>get\<close>.
\<close>

definition py_get :: "json \<Rightarrow> string \<Rightarrow> json \<Rightarrow> error + json" where
  "py_get x k dflt =
     (case x of JObj d \<Rightarrow> Inr (dict_get d k dflt) | _ \<Rightarrow> Inl AttributeError)"

text \<open>
  \<open>for x in v\<close>: a list gives its elements, a string its characters, a dict its keys;
  nothing else is iterable.
\<close>

definition py_iter :: "json \<Rightarrow> error + json list" where
  "py_iter v =
     (case v of
        JList xs \<Rightarrow> Inr xs
      | JStr s \<Rightarrow> Inr (map (\<lambda>c. JStr [c]) s)
      | JObj d \<Rightarrow> Inr (map (\<lambda>kv. JStr (fst kv)) d)
      | _ \<Rightarrow> Inl TypeError)"

text \<open>The truth value of \<open>if v\<close> and \<open>not v\<close>.\<close>

fun py_truthy :: "json \<Rightarrow> bool" where
  "py_truthy JNull = False"
| "py_truthy (JBool b) = b"
| "py_truthy (JInt i) = (i \<noteq> 0)"
| "py_truthy (JFloat q) = (q \<noteq> 0)"
| "py_truthy (JStr s) = (s \<noteq> [])"
| "py_truthy (JList xs) = (xs \<noteq> [])"
| "py_truthy (JObj d) = (d \<noteq> [])"

text \<open>The numeric value of a number; \<open>bool\<close> is a subclass of \<open>int\<close>.\<close>

fun num_value :: "json \<Rightarrow> rat option" where
  "num_value (JBool b) = Some (if b then 1 else 0)"
| "num_value (JInt i) = Some (of_int i)"
| "num_value (JFloat q) = Some q"
| "num_value v = None"

text \<open>
  \<open>a == b\<close> where \<open>a\<close> is a dictionary key, hence never a list or a dict: numbers are
  equal by value, strings by content, \<open>None\<close> to itself, anything else differs.
\<close>

fun py_eq :: "json \<Rightarrow> json \<Rightarrow> bool" where
  "py_eq (JStr a) (JStr b) = (a = b)"
| "py_eq JNull JNull = True"
| "py_eq a b =
     (case (num_value a, num_value b) of (Some x, Some y) \<Rightarrow> x = y | _ \<Rightarrow> False)"

section \<open>The storyboard validator: \<open>validate_storyboard\<close> (pipeline.py)\<close>

text \<open>\<open>isinstance(v, list)\<close>\<close>

fun is_list :: "json \<Rightarrow> bool" where
  "is_list (JList xs) = True"
| "is_list v = False"

text \<open>
  The two \<open>if\<close>s of the loop body, on a scene that is a dict:
  \<open>if k not in scene or not isinstance(scene[k], list): scene[k] = []\<close>.
\<close>

definition default_list :: "string \<Rightarrow> (string \<times> json) list \<Rightarrow> (string \<times> json) list" where
  "default_list k scene =
     (if map_of scene k = None \<or> \<not> is_list (dict_get scene k JNull)
      then dict_set k (JList []) scene else scene)"

text \<open>
  The loop body.  A scene that is not a dict raises \<open>TypeError\<close> on every path:
  \<open>in\<close> is refused by a number, a bool and \<open>None\<close>, and a list or a string is
  neither indexed nor assigned at a string key.
\<close>

definition validate_scene :: "json \<Rightarrow> error + json" where
  "validate_scene scene =
     (case scene of
        JObj d \<Rightarrow> Inr (JObj (default_list ''animations'' (default_list ''mobjects'' d)))
      | _ \<Rightarrow> Inl TypeError)"

fun validate_scenes :: "json list \<Rightarrow> error + json list" where
  "validate_scenes [] = Inr []"
| "validate_scenes (scene # rest) =
     (case validate_scene scene of
        Inl e \<Rightarrow> Inl e
      | Inr scene' \<Rightarrow>
          (case validate_scenes rest of
             Inl e \<Rightarrow> Inl e
           | Inr rest' \<Rightarrow> Inr (scene' # rest')))"

text \<open>
  The scenes are changed in place and the storyboard itself is returned.  Only
  when \<open>scenes\<close> is a list are its elements dicts that can be changed; over a string
  or a dict the loop meets strings, so it passes only when there are none.  A
  missing \<open>scenes\<close> is read as \<open>[]\<close>.
\<close>

definition validate_storyboard :: "json \<Rightarrow> error + json" where
  "validate_storyboard storyboard =
     (case storyboard of
        JObj d \<Rightarrow>
          (case map_of d ''scenes'' of
             None \<Rightarrow> Inr storyboard
           | Some scenes \<Rightarrow>
               and_then (py_iter scenes) (\<lambda>xs.
               and_then (validate_scenes xs) (\<lambda>xs'.
                 if is_list scenes then Inr (JObj (dict_set ''scenes'' (JList xs') d))
                 else Inr storyboard)))
      | _ \<Rightarrow> Inl AttributeError)"

section \<open>The repair loop: \<open>debug_code\<close> and its caller (app.py)\<close>

text \<open>
  The collaborators are outside the program: the model that answers a correction
  request, \<open>json.loads\<close> on its answer (\<open>None\<close> for \<open>JSONDecodeError\<close>), and \<open>exec\<close> of
  the code (\<open>None\<close> when it runs, the traceback text when it raises).  Each takes
  the attempt number first, since none of them has to answer the same way twice;
  the model also gets what the prompt is built from.  All three are taken to
  return.
\<close>

record env =
  generate_content :: "nat \<Rightarrow> string \<Rightarrow> json \<Rightarrow> string list \<Rightarrow> string"
  json_loads :: "string \<Rightarrow> json option"
  exec :: "nat \<Rightarrow> json \<Rightarrow> string option"

text \<open>
  The variables of \<open>debug_code\<close>, and \<open>execs\<close>, which is not one of them: it counts the
  calls of \<open>exec\<close>.
\<close>

record debug_state =
  attempt :: nat
  fixed_code :: json
  error_history :: "string list"
  execs :: nat

datatype outcome = Returned json | Raised error

text \<open>
  The \<open>while\<close> loop with the \<open>raise\<close> after it.  A response that does not parse is
  printed and raised again; \<open>result["code"]\<close> is outside any handler that would catch
  its \<open>KeyError\<close> or \<open>TypeError\<close>.  The final \<open>RuntimeError\<close> has a fixed message and
  nothing else.
\<close>

function debug_loop :: "env \<Rightarrow> string \<Rightarrow> nat \<Rightarrow> debug_state \<Rightarrow> outcome \<times> debug_state" where
  "debug_loop E topic max_retries st =
     (if attempt st < max_retries then
        let st1 = st\<lparr>attempt := attempt st + 1\<rparr>;
            resp = generate_content E (attempt st1) topic (fixed_code st1) (error_history st1)
        in (case json_loads E resp of
              None \<Rightarrow> (Raised JSONDecodeError, st1)
            | Some result \<Rightarrow>
                (case py_getitem result ''code'' of
                   Inl e \<Rightarrow> (Raised e, st1)
                 | Inr code \<Rightarrow>
                     let st2 = st1\<lparr>fixed_code := code, execs := execs st1 + 1\<rparr>
                     in (case exec E (attempt st2) code of
                           None \<Rightarrow> (Returned code, st2)
                         | Some new_error \<Rightarrow>
                             debug_loop E topic max_retries
                               (st2\<lparr>error_history := error_history st2 @ [new_error]\<rparr>))))
      else (Raised RuntimeError, st))"
  by pat_completeness auto
termination
  by (relation "measure (\<lambda>(E, topic, max_retries, st). max_retries - attempt st)") auto

declare debug_loop.simps [simp del]

definition debug_code :: "env \<Rightarrow> string \<Rightarrow> json \<Rightarrow> string \<Rightarrow> nat \<Rightarrow> outcome \<times> debug_state" where
  "debug_code E topic code err max_retries =
     debug_loop E topic max_retries
       \<lparr>attempt = 0, fixed_code = code, error_history = [err], execs = 0\<rparr>"


section \<open>The storyboard compiler: \<open>storyboard_to_manim_code\<close> (script_with_noobject.py)\<close>

definition MAX_ROW_OBJECTS :: nat where
  "MAX_ROW_OBJECTS = 5"

definition ROW_WIDTH_LIMIT :: rat where
  "ROW_WIDTH_LIMIT = 12"

subsection \<open>Formatting\<close>

text \<open>The decimal digits of an index, as an f-string writes an \<open>int\<close>.\<close>

definition digit_char :: "nat \<Rightarrow> char" where
  "digit_char d = ''0123456789'' ! d"

function str_of_nat :: "nat \<Rightarrow> string" where
  "str_of_nat n =
     (if n < 10 then [digit_char n] else str_of_nat (n div 10) @ [digit_char (n mod 10)])"
  by pat_completeness auto
termination
  by (relation "measure id") auto

declare str_of_nat.simps [simp del]

text \<open>
  \<open>s.lower()\<close> on code points below 256: the capital letters of ASCII and of
  Latin-1 (all of \<open>0xC0..0xDE\<close> but the multiplication sign) move up by 32.
\<close>

definition lower_char :: "char \<Rightarrow> char" where
  "lower_char c =
     (let n = (of_char c :: nat) in
      if (65 \<le> n \<and> n \<le> 90) \<or> (192 \<le> n \<and> n \<le> 222 \<and> n \<noteq> 215)
      then char_of (n + 32) else c)"

definition lower :: "string \<Rightarrow> string" where
  "lower s = map lower_char s"

text \<open>
  The emitted lines, one constructor for each string the compiler appends; the
  arguments are the values its f-string formats.  A name is whatever \<open>kwargs["name"]\<close>
  holds, so it is a JSON value, as is the \<open>type\<close> of an animation.
\<close>

datatype line =
    Import
  | Blank
  | ClassDef string
  | ConstructDef
  | SceneComment nat json
  | Assign json string "(string \<times> json) list"
  | Scale json rat
  | ToEdge json
  | NextTo json json
  | Play json "json list"
  | Wait

text \<open>
  \<open>", ".join(parts)\<close> and \<open>"\n".join(lines)\<close>.
\<close>

fun join :: "string \<Rightarrow> string list \<Rightarrow> string" where
  "join sep [] = []"
| "join sep [x] = x"
| "join sep (x # y # ys) = x @ sep @ join sep (y # ys)"

text \<open>
  How an f-string writes a value: a string as it is, any other value as \<open>repr\<close>
  does.  \<open>repr\<close> (of numbers, of quoted strings, of lists and dicts) is Python's and
  is a parameter here.  A scale factor is the \<open>int\<close> 1 when \<open>min\<close> returns its first
  argument, and a \<open>float\<close> otherwise.
\<close>

definition py_str :: "(json \<Rightarrow> string) \<Rightarrow> json \<Rightarrow> string" where
  "py_str repr v = (case v of JStr s \<Rightarrow> s | _ \<Rightarrow> repr v)"

fun render :: "(json \<Rightarrow> string) \<Rightarrow> line \<Rightarrow> string" where
  "render repr Import = ''from manim import *''"
| "render repr Blank = []"
| "render repr (ClassDef title) = ''class '' @ title @ ''(ThreeDScene):''"
| "render repr ConstructDef = ''    def construct(self):''"
| "render repr (SceneComment idx narration) =
     ''        # Scene '' @ str_of_nat idx @ '': '' @ py_str repr narration @ ''...''"
| "render repr (Assign mobj_name mobj_type kwargs) =
     ''        '' @ py_str repr mobj_name @ '' = '' @ mobj_type @ ''('' @
     join '', '' (map (\<lambda>(k, v). k @ ''='' @ repr v) kwargs) @ '')''"
| "render repr (Scale obj scale_factor) =
     ''        '' @ py_str repr obj @ ''.scale('' @
     (if scale_factor = 1 then ''1'' else repr (JFloat scale_factor)) @ '')''"
| "render repr (ToEdge obj) = ''        '' @ py_str repr obj @ ''.to_edge(UP)''"
| "render repr (NextTo obj prev) =
     ''        '' @ py_str repr obj @ ''.next_to('' @ py_str repr prev @ '', RIGHT, buff=0.5)''"
| "render repr (Play anim_type targets) =
     ''        self.play('' @ py_str repr anim_type @ ''('' @
     join '', '' (map (py_str repr) targets) @ ''))''"
| "render repr Wait = ''        self.wait(1)'' @ [CHR 0x0A]"

subsection \<open>Creating the objects of a scene\<close>

definition allowed_keys :: "string list" where
  "allowed_keys =
     [''radius'', ''side_length'', ''height'', ''fill_color'', ''fill_opacity'',
      ''stroke_color'', ''stroke_width'', ''font_size'', ''text'', ''x_range'', ''y_range'',
      ''axis_config'', ''color'', ''start'', ''end'', ''point'', ''matrix'']"

definition sanitize_mobject_kwargs :: "(string \<times> json) list \<Rightarrow> (string \<times> json) list" where
  "sanitize_mobject_kwargs kwargs = filter (\<lambda>(k, v). k \<in> set allowed_keys) kwargs"

text \<open>
  The variables of one scene's pass: the lines so far, the name-to-type dict and
  the open row.  The dict keeps insertion order; its keys are compared with \<open>==\<close>.
\<close>

record scene_state =
  lines :: "line list"
  mobjects_map :: "(json \<times> string) list"
  row_objs :: "json list"
  row_count :: nat
  row_width :: rat

text \<open>\<open>mobjects_map[name] = cls\<close>: an equal key keeps its place and its first spelling.\<close>

fun map_set :: "json \<Rightarrow> string \<Rightarrow> (json \<times> string) list \<Rightarrow> (json \<times> string) list" where
  "map_set k v [] = [(k, v)]"
| "map_set k v ((k', v') # m) =
     (if py_eq k' k then (k', v) # m else (k', v') # map_set k v m)"

text \<open>A list or a dict cannot be a dictionary key.\<close>

fun is_hashable :: "json \<Rightarrow> bool" where
  "is_hashable (JList xs) = False"
| "is_hashable (JObj d) = False"
| "is_hashable v = True"

text \<open>
  Positioning a row: the first object goes to the edge, each later one next to
  the one before it.
\<close>

definition position_row :: "json list \<Rightarrow> line list" where
  "position_row objs =
     (case objs of
        [] \<Rightarrow> []
      | obj # rest \<Rightarrow> ToEdge obj # map (\<lambda>(obj', prev). NextTo obj' prev) (zip rest objs))"

text \<open>\<open>kwargs.get("radius", kwargs.get("side_length", 1))\<close>\<close>

definition approx_size :: "(string \<times> json) list \<Rightarrow> json" where
  "approx_size kwargs = dict_get kwargs ''radius'' (dict_get kwargs ''side_length'' (JInt 1))"

text \<open>
  The layout part of the loop body: the object joins the open row; the row is
  closed, scaled and positioned when it is full or too wide.  The division raises
  when the accumulated width is zero.
\<close>

definition place_in_row :: "scene_state \<Rightarrow> json \<Rightarrow> rat \<Rightarrow> error + scene_state" where
  "place_in_row st mobj_name sz =
     (let row_width' = row_width st + (sz + 1 / 2);
          row_objs' = row_objs st @ [mobj_name];
          row_count' = row_count st + 1
      in if row_count' \<ge> MAX_ROW_OBJECTS \<or> row_width' > ROW_WIDTH_LIMIT then
           if row_width' = 0 then Inl ZeroDivisionError
           else let scale_factor = min 1 (ROW_WIDTH_LIMIT / row_width')
                in Inr (st\<lparr>lines := lines st @ map (\<lambda>obj. Scale obj scale_factor) row_objs'
                                    @ position_row row_objs',
                            row_objs := [], row_count := 0, row_width := 0\<rparr>)
         else Inr (st\<lparr>row_objs := row_objs', row_count := row_count',
                       row_width := row_width'\<rparr>))"

text \<open>
  The body of the loop over the objects.  \<open>mobj["type"]\<close> wants a dict with that
  key; \<open>.get\<close> wants \<open>kwargs\<close> to be a dict and \<open>.lower()\<close> wants the type to be a
  string (the default name is computed whether or not it is used); the size must
  be a number to be added to \<open>0.5\<close>; the name must be hashable.
\<close>

definition create_mobject :: "nat \<Rightarrow> nat \<Rightarrow> json \<Rightarrow> scene_state \<Rightarrow> error + scene_state" where
  "create_mobject idx mobj_idx mobj st =
     and_then (py_getitem mobj ''type'') (\<lambda>type_value.
     and_then (py_get mobj ''kwargs'' (JObj [])) (\<lambda>kwargs_value.
       case kwargs_value of
         JObj raw_kwargs \<Rightarrow>
           (case type_value of
              JStr mobj_type \<Rightarrow>
                let mobj_name = dict_get raw_kwargs ''name''
                      (JStr (lower mobj_type @ str_of_nat idx @ ''_'' @ str_of_nat mobj_idx));
                    kwargs = sanitize_mobject_kwargs raw_kwargs;
                    st1 = st\<lparr>lines := lines st @ [Assign mobj_name mobj_type kwargs]\<rparr>
                in (case num_value (approx_size kwargs) of
                      None \<Rightarrow> Inl TypeError
                    | Some sz \<Rightarrow>
                        and_then (place_in_row st1 mobj_name sz) (\<lambda>st2.
                          if is_hashable mobj_name
                          then Inr (st2\<lparr>mobjects_map :=
                                          map_set mobj_name mobj_type (mobjects_map st2)\<rparr>)
                          else Inl TypeError))
            | _ \<Rightarrow> Inl AttributeError)
       | _ \<Rightarrow> Inl AttributeError))"

fun create_mobjects :: "nat \<Rightarrow> nat \<Rightarrow> json list \<Rightarrow> scene_state \<Rightarrow> error + scene_state" where
  "create_mobjects idx mobj_idx [] st = Inr st"
| "create_mobjects idx mobj_idx (mobj # rest) st =
     (case create_mobject idx mobj_idx mobj st of
        Inl e \<Rightarrow> Inl e
      | Inr st' \<Rightarrow> create_mobjects idx (mobj_idx + 1) rest st')"

subsection \<open>Playing the animations of a scene\<close>

text \<open>
  A string target: the first entry of the dict, in insertion order, whose type or
  name equals it.
\<close>

fun first_match :: "json \<Rightarrow> (json \<times> string) list \<Rightarrow> json option" where
  "first_match target [] = None"
| "first_match target ((name, cls) # rest) =
     (if JStr cls = target \<or> py_eq name target then Some name
      else first_match target rest)"

text \<open>
  A list target: for each element the whole dict is walked, and every entry
  whose type or name equals the element is appended.
\<close>

fun append_matches :: "json \<Rightarrow> (json \<times> string) list \<Rightarrow> json list \<Rightarrow> json list" where
  "append_matches t [] targets = targets"
| "append_matches t ((name, cls) # rest) targets =
     append_matches t rest
       (if JStr cls = t \<or> py_eq name t then targets @ [name] else targets)"

fun collect_targets :: "json list \<Rightarrow> (json \<times> string) list \<Rightarrow> json list \<Rightarrow> json list" where
  "collect_targets [] m targets = targets"
| "collect_targets (t # ts) m targets = collect_targets ts m (append_matches t m targets)"

fun is_str :: "json \<Rightarrow> bool" where
  "is_str (JStr s) = True"
| "is_str v = False"

text \<open>
  The body of the loop over the animations.  \<open>.get\<close> wants the animation to be a
  dict.  A falsy target is skipped.  A string target plays the first match if
  that name is truthy; a list target plays all matches if there are any, and
  \<open>", ".join\<close> wants them to be strings; any other target does nothing.
\<close>

definition play_animation :: "(json \<times> string) list \<Rightarrow> json \<Rightarrow> line list \<Rightarrow> error + line list" where
  "play_animation m anim ls =
     and_then (py_get anim ''type'' JNull) (\<lambda>anim_type.
     and_then (py_get anim ''target'' JNull) (\<lambda>target.
       if \<not> py_truthy target then Inr ls
       else (case target of
               JStr s \<Rightarrow>
                 (case first_match target m of
                    None \<Rightarrow> Inr ls
                  | Some matched \<Rightarrow>
                      if py_truthy matched then Inr (ls @ [Play anim_type [matched]])
                      else Inr ls)
             | JList ts \<Rightarrow>
                 (let targets = collect_targets ts m [] in
                  if targets = [] then Inr ls
                  else if list_all is_str targets then Inr (ls @ [Play anim_type targets])
                  else Inl TypeError)
             | _ \<Rightarrow> Inr ls)))"

fun play_animations :: "(json \<times> string) list \<Rightarrow> json list \<Rightarrow> line list \<Rightarrow> error + line list" where
  "play_animations m [] ls = Inr ls"
| "play_animations m (anim # rest) ls =
     (case play_animation m anim ls of
        Inl e \<Rightarrow> Inl e
      | Inr ls' \<Rightarrow> play_animations m rest ls')"

subsection \<open>Scenes and the whole storyboard\<close>

text \<open>
  \<open>narration[:50]\<close>: a string or a list can be sliced.  A dict cannot (\<open>TypeError\<close>
  up to Python 3.11, \<open>KeyError\<close> from 3.12 on, where a slice is hashable; the model
  says \<open>TypeError\<close>), nor can the other values.
\<close>

definition slice50 :: "json \<Rightarrow> error + json" where
  "slice50 v =
     (case v of
        JStr s \<Rightarrow> Inr (JStr (take 50 s))
      | JList xs \<Rightarrow> Inr (JList (take 50 xs))
      | _ \<Rightarrow> Inl TypeError)"

definition compile_scene :: "nat \<Rightarrow> json \<Rightarrow> line list \<Rightarrow> error + line list" where
  "compile_scene idx scene ls =
     and_then (py_getitem scene ''narration'') (\<lambda>narration.
     and_then (slice50 narration) (\<lambda>narration50.
     and_then (py_get scene ''mobjects'' (JList [])) (\<lambda>mobjects.
     and_then (py_iter mobjects) (\<lambda>mobjs.
     and_then (create_mobjects idx 1 mobjs
                 \<lparr>lines = ls @ [SceneComment idx narration50], mobjects_map = [],
                  row_objs = [], row_count = 0, row_width = 0\<rparr>) (\<lambda>st.
     and_then (py_get scene ''animations'' (JList [])) (\<lambda>animations.
     and_then (py_iter animations) (\<lambda>anims.
     and_then (play_animations (mobjects_map st) anims
                 (if row_objs st \<noteq> [] then lines st @ position_row (row_objs st)
                  else lines st)) (\<lambda>ls'.
       Inr (ls' @ [Wait])))))))))"

fun compile_scenes :: "nat \<Rightarrow> json list \<Rightarrow> line list \<Rightarrow> error + line list" where
  "compile_scenes idx [] ls = Inr ls"
| "compile_scenes idx (scene # rest) ls =
     (case compile_scene idx scene ls of
        Inl e \<Rightarrow> Inl e
      | Inr ls' \<Rightarrow> compile_scenes (idx + 1) rest ls')"

text \<open>
  The lines of the script.  \<open>storyboard['title']\<close> must be a string to have
  \<open>replace\<close>; the scenes are numbered from 1.
\<close>

definition storyboard_to_manim_lines :: "json \<Rightarrow> error + line list" where
  "storyboard_to_manim_lines storyboard =
     and_then (py_getitem storyboard ''title'') (\<lambda>title.
       case title of
         JStr t \<Rightarrow>
           and_then (py_getitem storyboard ''scenes'') (\<lambda>scenes.
           and_then (py_iter scenes) (\<lambda>scs.
             compile_scenes 1 scs
               [Import, Blank, ClassDef (filter (\<lambda>c. c \<noteq> CHR '' '') t), ConstructDef]))
       | _ \<Rightarrow> Inl AttributeError)"

definition storyboard_to_manim_code :: "(json \<Rightarrow> string) \<Rightarrow> json \<Rightarrow> error + string" where
  "storyboard_to_manim_code repr storyboard =
     and_then (storyboard_to_manim_lines storyboard) (\<lambda>ls.
       Inr (join [CHR 0x0A] (map (render repr) ls)))"

section \<open>Notions used to state the properties\<close>

text \<open>\<open>isinstance(v, dict)\<close>\<close>

fun is_dict :: "json \<Rightarrow> bool" where
  "is_dict (JObj d) = True"
| "is_dict v = False"

text \<open>
  What the validator does to one scene: \<open>mobjects\<close> and \<open>animations\<close> are kept when
  they are lists and are the empty list otherwise, and every other key reads as
  before.
\<close>

definition defaulted :: "json \<Rightarrow> json \<Rightarrow> bool" where
  "defaulted s s' =
     (\<exists>sd sd'. s = JObj sd \<and> s' = JObj sd' \<and>
        map_of sd' ''mobjects'' =
          Some (case map_of sd ''mobjects'' of Some (JList xs) \<Rightarrow> JList xs | _ \<Rightarrow> JList []) \<and>
        map_of sd' ''animations'' =
          Some (case map_of sd ''animations'' of Some (JList xs) \<Rightarrow> JList xs | _ \<Rightarrow> JList []) \<and>
        (\<forall>k. k \<noteq> ''mobjects'' \<and> k \<noteq> ''animations'' \<longrightarrow> map_of sd' k = map_of sd k))"











subsection \<open>Concrete inputs\<close>


text \<open>
  A model whose first answer does not parse and whose later answers would, with
  the same failing \<open>exec\<close>.
\<close>

definition first_unparseable :: env where
  "first_unparseable =
     \<lparr>generate_content = (\<lambda>k topic code history. if k = 1 then ''oops'' else ''{\"code\": \"pass\"}''),
      json_loads = (\<lambda>resp. if resp = ''oops'' then None
                            else Some (JObj [(''code'', JStr ''pass'')])),
      exec = (\<lambda>k code. Some ''Traceback'')\<rparr>"

text \<open>
  The storyboard of the end-to-end scenario, with the keys the compiler reads
  (\<open>mobjects\<close>, \<open>animations\<close>, \<open>type\<close>), and the same storyboard with the keys as the
  scenario writes them.
\<close>

definition demo_storyboard :: json where
  "demo_storyboard =
     JObj [(''title'', JStr ''Demo''),
           (''scenes'', JList [JObj
              [(''scene_class'', JStr ''Scene''), (''narration'', JStr ''x''),
               (''mobjects'', JList [JObj [(''type'', JStr ''Circle'')]]),
               (''animations'', JList [JObj [(''type'', JStr ''FadeIn''),
                                             (''target'', JStr ''Circle'')]])]])]"

definition demo_as_written :: json where
  "demo_as_written =
     JObj [(''title'', JStr ''Demo''),
           (''scenes'', JList [JObj
              [(''scene_kind'', JStr ''Scene''), (''narration'', JStr ''x''),
               (''objects'', JList [JObj [(''kind'', JStr ''Circle'')]]),
               (''operations'', JList [JObj [(''kind'', JStr ''FadeIn''),
                                             (''target'', JStr ''Circle'')]])]])]"







section \<open>Properties of the sanitizer\<close>

lemma count_append: "count (a @ b) c = count a c + count b c"
  by (simp add: count_def)

lemma count_replicate: "count (replicate n d) c = (if c = d then n else 0)"
  by (induction n) (auto simp: count_def)

lemma balance_braces_count:
  "count (balance_braces t) CHR ''}'' = max (count t CHR ''{'') (count t CHR ''}'')"
  "count (balance_braces t) CHR ''{'' = count t CHR ''{''"
  "count (balance_braces t) CHR ''['' = count t CHR ''[''"
  "count (balance_braces t) CHR '']'' = count t CHR '']''"
  by (auto simp: balance_braces_def Let_def count_append count_replicate)

lemma balance_brackets_count:
  "count (balance_brackets t) CHR '']'' = max (count t CHR ''['') (count t CHR '']'')"
  "count (balance_brackets t) CHR ''['' = count t CHR ''[''"
  "count (balance_brackets t) CHR ''{'' = count t CHR ''{''"
  "count (balance_brackets t) CHR ''}'' = count t CHR ''}''"
  by (auto simp: balance_brackets_def Let_def count_append count_replicate)


text \<open>
  C6, as amended.  The output of \<open>fix_gemini_json\<close> has at least as many \<open>}\<close> as \<open>{\<close>
  and at least as many \<open>]\<close> as \<open>[\<close>.  The two counts of a kind are equal when the
  text that reaches the balancing step has no more closers than openers of that
  kind: the step appends closers and never removes one.
\<close>

theorem fix_gemini_json_closers_cover_openers:
  "count (fix_gemini_json x) CHR ''{'' \<le> count (fix_gemini_json x) CHR ''}'' \<and>
   count (fix_gemini_json x) CHR ''['' \<le> count (fix_gemini_json x) CHR '']'' \<and>
   (count (strip_control (rewrite_steps x)) CHR ''}''
      \<le> count (strip_control (rewrite_steps x)) CHR ''{'' \<longrightarrow>
    count (fix_gemini_json x) CHR ''{'' = count (fix_gemini_json x) CHR ''}'') \<and>
   (count (strip_control (rewrite_steps x)) CHR '']''
      \<le> count (strip_control (rewrite_steps x)) CHR ''['' \<longrightarrow>
    count (fix_gemini_json x) CHR ''['' = count (fix_gemini_json x) CHR '']'')"
  by (simp add: fix_gemini_json_def balance_braces_count balance_brackets_count)

theorem fix_gemini_json_closers_cover_openers_witness:
  "fix_gemini_json ''{\"a\": [1, {'' = ''{\"a\": [1, {}}]'' \<and>
   count (fix_gemini_json ''{\"a\": [1, {'') CHR ''{''
     = count (fix_gemini_json ''{\"a\": [1, {'') CHR ''}'' \<and>
   count (fix_gemini_json ''{\"a\": [1, {'') CHR ''[''
     = count (fix_gemini_json ''{\"a\": [1, {'') CHR '']''"
  using fix_gemini_json_closers_cover_openers [of "''{\"a\": [1, {''"] by code_simp

text \<open>
  C6 as stated fails: a text with a surplus closer keeps it, so the counts
  stay different.
\<close>

theorem fix_gemini_json_unbalanced:
  "fix_gemini_json ''}'' = ''}'' \<and>
   count (fix_gemini_json ''}'') CHR ''{'' \<noteq> count (fix_gemini_json ''}'') CHR ''}''"
  by code_simp







section \<open>Properties of the validator\<close>

lemma map_of_dict_set: "map_of (dict_set k v d) k' = (if k' = k then Some v else map_of d k')"
  by (induction d) auto

lemma default_list_other: "k' \<noteq> k \<Longrightarrow> map_of (default_list k d) k' = map_of d k'"
  by (simp add: default_list_def map_of_dict_set)

lemma default_list_key:
  "map_of (default_list k d) k =
     Some (case map_of d k of Some (JList xs) \<Rightarrow> JList xs | _ \<Rightarrow> JList [])"
  by (auto simp: default_list_def map_of_dict_set dict_get_def split: option.splits json.splits)

lemma validate_scene_dict:
  "\<exists>s'. validate_scene (JObj sd) = Inr s' \<and> defaulted (JObj sd) s'"
  by (simp add: validate_scene_def defaulted_def default_list_key default_list_other)

lemma validate_scenes_dicts:
  "list_all is_dict scenes \<Longrightarrow>
   \<exists>scenes'. validate_scenes scenes = Inr scenes' \<and> list_all2 defaulted scenes scenes'"
proof (induction scenes)
  case Nil
  then show ?case by simp
next
  case (Cons s scenes)
  from Cons.prems obtain sd where s: "s = JObj sd" by (cases s) auto
  from validate_scene_dict [of sd] obtain s' where
    s': "validate_scene (JObj sd) = Inr s'" "defaulted (JObj sd) s'" by blast
  from Cons obtain scenes' where
    r: "validate_scenes scenes = Inr scenes'" "list_all2 defaulted scenes scenes'" by auto
  show ?case using s s' r by simp
qed

text \<open>
  C9, as amended.  \<open>validate_storyboard\<close> checks no schema and has no \<open>SchemaError\<close>.
  An input that is not a mapping fails with \<open>AttributeError\<close>; a mapping without
  \<open>scenes\<close> is returned as it is.  When \<open>scenes\<close> is a list whose elements are all
  mappings, validation succeeds, the storyboard changes only at \<open>scenes\<close>, and in
  each scene a missing or non-list \<open>mobjects\<close> or \<open>animations\<close> becomes the empty
  list while every other key of the scene reads as before.
\<close>

theorem validate_storyboard_defaults:
  "(\<not> is_dict parsed \<longrightarrow> validate_storyboard parsed = Inl AttributeError) \<and>
   (map_of d ''scenes'' = None \<longrightarrow> validate_storyboard (JObj d) = Inr (JObj d)) \<and>
   (map_of d ''scenes'' = Some (JList scenes) \<and> list_all is_dict scenes \<longrightarrow>
      (\<exists>scenes'. validate_storyboard (JObj d)
                    = Inr (JObj (dict_set ''scenes'' (JList scenes') d)) \<and>
                  list_all2 defaulted scenes scenes'))"
proof (intro conjI impI)
  assume "\<not> is_dict parsed"
  then show "validate_storyboard parsed = Inl AttributeError"
    by (cases parsed) (simp_all add: validate_storyboard_def)
next
  assume "map_of d ''scenes'' = None"
  then show "validate_storyboard (JObj d) = Inr (JObj d)"
    by (simp add: validate_storyboard_def)
next
  assume a: "map_of d ''scenes'' = Some (JList scenes) \<and> list_all is_dict scenes"
  with validate_scenes_dicts [of scenes] obtain scenes' where
    r: "validate_scenes scenes = Inr scenes'" "list_all2 defaulted scenes scenes'" by blast
  with a show "\<exists>scenes'. validate_storyboard (JObj d)
                    = Inr (JObj (dict_set ''scenes'' (JList scenes') d)) \<and>
                  list_all2 defaulted scenes scenes'"
    by (intro exI [of _ scenes']) (simp add: validate_storyboard_def py_iter_def)
qed

theorem validate_storyboard_defaults_witness:
  "validate_storyboard (JList []) = Inl AttributeError \<and>
   validate_storyboard (JObj [(''title'', JStr ''T'')]) = Inr (JObj [(''title'', JStr ''T'')]) \<and>
   (\<exists>scenes'. validate_storyboard (JObj [(''title'', JStr ''T''),
         (''scenes'', JList [JObj [(''narration'', JStr ''x''), (''mobjects'', JInt 3)]])]) =
       Inr (JObj [(''title'', JStr ''T''), (''scenes'', JList scenes')]) \<and>
       list_all2 defaulted [JObj [(''narration'', JStr ''x''), (''mobjects'', JInt 3)]] scenes')"
  using validate_storyboard_defaults [of "JList []" "[(''title'', JStr ''T'')]" "[]"]
    validate_storyboard_defaults [of "JNull" "[(''title'', JStr ''T''),
         (''scenes'', JList [JObj [(''narration'', JStr ''x''), (''mobjects'', JInt 3)]])]"
        "[JObj [(''narration'', JStr ''x''), (''mobjects'', JInt 3)]]"]
  by simp

text \<open>
  C9 as stated fails: a \<open>scenes\<close> that is an empty mapping, not a sequence, passes
  validation.
\<close>

theorem validate_storyboard_accepts_mapping_scenes:
  "validate_storyboard (JObj [(''scenes'', JObj [])]) = Inr (JObj [(''scenes'', JObj [])])"
  by (simp add: validate_storyboard_def py_iter_def)

section \<open>Properties of the repair loop\<close>






text \<open>
  C8, as amended.  When the answer to a correction request does not parse,
  \<open>debug_code\<close> raises the \<open>JSONDecodeError\<close> again: the session ends there, nothing
  is appended to the history, the code is not executed and no further attempt
  is made.
\<close>

theorem debug_loop_parse_failure_raises:
  "attempt st < max_retries \<Longrightarrow>
   json_loads E (generate_content E (attempt st + 1) topic (fixed_code st) (error_history st))
     = None \<Longrightarrow>
   debug_loop E topic max_retries st = (Raised JSONDecodeError, st\<lparr>attempt := attempt st + 1\<rparr>)"
  by (simp add: debug_loop.simps [of E topic max_retries st] Let_def)

theorem debug_loop_parse_failure_raises_witness:
  "debug_loop first_unparseable ''t'' 3
     \<lparr>attempt = 0, fixed_code = JStr ''c'', error_history = [''e0''], execs = 0\<rparr> =
   (Raised JSONDecodeError,
    \<lparr>attempt = 1, fixed_code = JStr ''c'', error_history = [''e0''], execs = 0\<rparr>)"
  using debug_loop_parse_failure_raises [of
      "\<lparr>attempt = 0, fixed_code = JStr ''c'', error_history = [''e0''], execs = 0\<rparr>"
      3 first_unparseable "''t''"]
  by (simp add: first_unparseable_def)

text \<open>
  C8 as stated fails: the first answer does not parse, the later ones would, and
  the budget is 3; the session is aborted at attempt 1 with the history as it
  was.
\<close>

theorem debug_code_parse_failure_aborts:
  "debug_code first_unparseable ''t'' (JStr ''c'') ''e0'' 3 =
     (Raised JSONDecodeError,
      \<lparr>attempt = 1, fixed_code = JStr ''c'', error_history = [''e0''], execs = 0\<rparr>)"
  by (simp add: debug_code_def debug_loop.simps first_unparseable_def)

section \<open>Properties of the compiler\<close>

subsection \<open>One step of the object loop\<close>






subsection \<open>Rows\<close>


text \<open>The loop over a list in two parts: the indices run on.\<close>

lemma create_mobjects_append:
  "create_mobjects idx j (xs @ ys) st =
     (case create_mobjects idx j xs st of
        Inl e \<Rightarrow> Inl e
      | Inr st1 \<Rightarrow> create_mobjects idx (j + length xs) ys st1)"
  by (induction xs arbitrary: j st) (auto split: sum.splits)








subsection \<open>Kinds and parameter keys\<close>












subsection \<open>The end-to-end scenario\<close>

text \<open>
  C4, as amended.  The storyboard of the scenario, with its objects under
  \<open>mobjects\<close> and its operations under \<open>animations\<close> and each kind under \<open>type\<close>,
  compiles to a script that constructs exactly one circle, bound to the
  synthesized name \<open>circle1_1\<close> (the kind in lower case, then the scene number and
  the declaration number, both counted from 1), and plays exactly one fade-in,
  on that name.
\<close>

theorem demo_compiles:
  "storyboard_to_manim_code repr demo_storyboard =
     Inr (join [CHR 0x0A]
       [''from manim import *'',
        [],
        ''class Demo(ThreeDScene):'',
        ''    def construct(self):'',
        ''        # Scene 1: x...'',
        ''        circle1_1 = Circle()'',
        ''        circle1_1.to_edge(UP)'',
        ''        self.play(FadeIn(circle1_1))'',
        ''        self.wait(1)'' @ [CHR 0x0A]])"
proof -
  have l: "storyboard_to_manim_lines demo_storyboard =
     Inr [Import, Blank, ClassDef ''Demo'', ConstructDef, SceneComment 1 (JStr ''x''),
          Assign (JStr ''circle1_1'') ''Circle'' [], ToEdge (JStr ''circle1_1''),
          Play (JStr ''FadeIn'') [JStr ''circle1_1''], Wait]"
    by code_simp
  have n: "str_of_nat (Suc 0) = ''1''" by (simp add: str_of_nat.simps digit_char_def)
  show ?thesis
    by (simp add: l storyboard_to_manim_code_def py_str_def n)
qed

theorem demo_compiles_witness:
  "storyboard_to_manim_code (\<lambda>v. []) demo_storyboard =
     Inr (join [CHR 0x0A]
       [''from manim import *'',
        [],
        ''class Demo(ThreeDScene):'',
        ''    def construct(self):'',
        ''        # Scene 1: x...'',
        ''        circle1_1 = Circle()'',
        ''        circle1_1.to_edge(UP)'',
        ''        self.play(FadeIn(circle1_1))'',
        ''        self.wait(1)'' @ [CHR 0x0A]])"
  using demo_compiles [of "\<lambda>v. []"] by blast

text \<open>
  C4 as stated fails.  With the keys the compiler reads, the one circle is bound
  to \<open>circle1_1\<close> and the one fade-in plays \<open>circle1_1\<close>, not \<open>circle_0_0\<close>; with the
  keys as the scenario writes them (\<open>objects\<close>, \<open>operations\<close>, \<open>kind\<close>) the compiler
  finds no object and no animation at all.
\<close>

theorem demo_name_is_circle1_1:
  "storyboard_to_manim_lines demo_storyboard =
     Inr [Import, Blank, ClassDef ''Demo'', ConstructDef, SceneComment 1 (JStr ''x''),
          Assign (JStr ''circle1_1'') ''Circle'' [], ToEdge (JStr ''circle1_1''),
          Play (JStr ''FadeIn'') [JStr ''circle1_1''], Wait] \<and>
   JStr ''circle1_1'' \<noteq> JStr ''circle_0_0'' \<and>
   storyboard_to_manim_lines demo_as_written =
     Inr [Import, Blank, ClassDef ''Demo'', ConstructDef, SceneComment 1 (JStr ''x''), Wait]"
  by code_simp

subsection \<open>Targets of animations\<close>







lemma play_animation_falsy:
  "\<not> py_truthy (dict_get a ''target'' JNull) \<Longrightarrow> play_animation m (JObj a) ls = Inr ls"
  by (simp add: play_animation_def py_get_def)

lemma play_animations_skip:
  "\<not> py_truthy (dict_get a ''target'' JNull) \<Longrightarrow>
   play_animations m (pre @ JObj a # post) ls = play_animations m (pre @ post) ls"
  by (induction pre arbitrary: ls) (auto simp: play_animation_falsy split: sum.splits)

text \<open>
  C10.  In every scene, an animation whose \<open>target\<close> is missing, empty or otherwise
  falsy is skipped: the scene compiles exactly as it does without that
  animation, to the same lines or to the same error, so the animation itself
  emits nothing and raises nothing.
\<close>

theorem falsy_target_is_skipped:
  "\<not> py_truthy (dict_get a ''target'' JNull) \<Longrightarrow>
   compile_scene idx (JObj (dict_set ''animations'' (JList (pre @ JObj a # post)) scene)) ls =
   compile_scene idx (JObj (dict_set ''animations'' (JList (pre @ post)) scene)) ls"
  by (simp add: compile_scene_def py_get_def py_getitem_def dict_get_def map_of_dict_set
      py_iter_def play_animations_skip)

theorem falsy_target_is_skipped_witness:
  "compile_scene 1
     (JObj [(''narration'', JStr ''x''),
            (''animations'', JList [JObj [(''type'', JStr ''FadeIn''), (''target'', JStr [])]])])
     [] = Inr [SceneComment 1 (JStr ''x''), Wait]"
proof -
  have h: "\<not> py_truthy (dict_get [(''type'', JStr ''FadeIn''), (''target'', JStr [])]
                           ''target'' JNull)"
    by (simp add: dict_get_def)
  have e: "compile_scene 1
     (JObj [(''narration'', JStr ''x''), (''animations'', JList [])]) []
       = Inr [SceneComment 1 (JStr ''x''), Wait]"
    by code_simp
  from falsy_target_is_skipped [OF h, of 1 "[]" "[]" "[(''narration'', JStr ''x'')]" "[]"] e
  show ?thesis by simp
qed


end
